theory Spec2Isabelle
  imports Complex_Main
begin

section \<open>Python values shared by the four metric Lambdas\<close>

text \<open>
  The exceptions the handlers can meet. Every constructor of \<open>exn\<close> is a subclass of
  Python's \<open>Exception\<close>, so \<open>except Exception\<close> catches each of them. \<open>sys.exit\<close>
  raises \<open>SystemExit\<close>, which is not a subclass of \<open>Exception\<close>: it is kept apart
  in \<open>raised\<close>, and no \<open>except Exception\<close> clause catches it. The calls to the AWS
  clients raise members of \<open>exn\<close> only.
\<close>

datatype exn =
    KeyError
  | TypeError
  | ParserError
  | PipelineNotFoundException
  | ClientError

datatype raised = Exc exn | SystemExit nat

text \<open>
  The module-level configuration of a Lambda: each value is read once with
  \<open>os.getenv\<close>, which gives \<open>None\<close> for a variable that is not set. Note that
  \<open>app_repo_list\<close> is the environment string itself (the line that would split it
  into a list is commented out in the source).
\<close>

record config =
  default_branch :: "string option"
  app_prod_stage_name :: "string option"
  app_repo_list :: "string option"
  output_location :: "string option"
  database :: "string option"
  table :: "string option"

text \<open>
  The inbound events. A key of the JSON object that is absent is \<open>None\<close>; reading
  it with \<open>event[...]\<close> raises \<open>KeyError\<close>.
\<close>

record trigger =
  commit_id :: "string option"
  full_repository_name :: "string option"
  branch_name :: "string option"
  commit_message :: "string option"

record event_detail =
  pipeline :: "string option"
  state :: "string option"
  execution_trigger :: "trigger option"
  status :: "string option"

record event =
  detail_type :: "string option"
  detail :: "event_detail option"
  time :: "string option"

definition subscript :: "'a option \<Rightarrow> exn + 'a" where
  "subscript v = (case v of None \<Rightarrow> Inl KeyError | Some x \<Rightarrow> Inr x)"

text \<open>The responses of the handlers: a status code with a body, or a bare status.\<close>

datatype response = StatusCodeBody int string | Status string

text \<open>
  A sample handed to \<open>put_metric_data\<close>. The handlers return, next to their result,
  the list of the samples they handed to the sink, in order: a \<open>put_metric_data\<close>
  call that fails is caught and logged by its caller, and is still a call.
\<close>

record sample =
  Namespace :: string
  MetricName :: string
  Unit :: string
  Value :: real

section \<open>Python's string operations\<close>

definition startswith :: "string \<Rightarrow> string \<Rightarrow> bool" where
  "startswith s p = (take (length p) s = p)"

text \<open>\<open>sub in s\<close> for two strings: \<open>sub\<close> occurs in \<open>s\<close> as a substring.\<close>

fun py_str_in :: "string \<Rightarrow> string \<Rightarrow> bool" where
  "py_str_in sub [] = (sub = [])"
| "py_str_in sub (c # cs) = (startswith (c # cs) sub \<or> py_str_in sub cs)"

text \<open>
  \<open>repository_name in app_repo_list\<close>: a \<open>TypeError\<close> when the right operand is
  \<open>None\<close> (not iterable) or when the left operand of a string is \<open>None\<close>.
\<close>

definition py_in :: "string option \<Rightarrow> string option \<Rightarrow> exn + bool" where
  "py_in x s =
     (case s of
        None \<Rightarrow> Inl TypeError
      | Some str \<Rightarrow> (case x of None \<Rightarrow> Inl TypeError | Some sub \<Rightarrow> Inr (py_str_in sub str)))"

text \<open>
  \<open>s.split(c)\<close>, scanning from the left with the segment read so far: the result is
  never empty, and empty segments are kept.
\<close>

fun py_split_from :: "char \<Rightarrow> string \<Rightarrow> string \<Rightarrow> string list" where
  "py_split_from c seg [] = [seg]"
| "py_split_from c seg (x # xs) =
     (if x = c then seg # py_split_from c [] xs
      else py_split_from c (seg @ [x]) xs)"

definition py_split :: "char \<Rightarrow> string \<Rightarrow> string list" where
  "py_split c s = py_split_from c [] s"

text \<open>\<open>sep.join(xs)\<close>.\<close>

fun py_join :: "string \<Rightarrow> string list \<Rightarrow> string" where
  "py_join sep [] = []"
| "py_join sep [x] = x"
| "py_join sep (x # y # ys) = x @ sep @ py_join sep (y # ys)"

section \<open>The pipeline platform\<close>

record action =
  category :: string
  configuration :: "(string \<times> string) list"

record stage =
  name :: string
  actions :: "action list"

record pipeline_details =
  stages :: "stage list"

record stage_state =
  stageName :: string
  latestExecution :: "string option"

record pipeline_state =
  stageStates :: "stage_state list option"

record stage_detail =
  sd_name :: string
  sd_status :: string

text \<open>
  The CodePipeline client of the tooling account, with the two calls the Lambdas make:
  \<open>get_pipeline\<close> and \<open>get_pipeline_state\<close>.
\<close>

record codepipeline =
  get_pipeline :: "string \<Rightarrow> exn + pipeline_details"
  get_pipeline_state :: "string \<Rightarrow> exn + pipeline_state"

text \<open>
  \<open>extract_branch_from_pipeline_details\<close>: the inner loop over the actions of a
  stage named Source, and the outer loop over the stages. The function returns the
  pair of \<open>configuration.get("BranchName")\<close> and \<open>configuration.get("RepositoryName")\<close>,
  and \<open>None\<close> (no pair) after the loops.
\<close>

fun first_source_action :: "action list \<Rightarrow> (string option \<times> string option) option" where
  "first_source_action [] = None"
| "first_source_action (a # as) =
     (if category a = ''Source''
      then Some (map_of (configuration a) ''BranchName'',
                 map_of (configuration a) ''RepositoryName'')
      else first_source_action as)"

fun extract_from_stages :: "stage list \<Rightarrow> (string option \<times> string option) option" where
  "extract_from_stages [] = None"
| "extract_from_stages (st # sts) =
     (if name st = ''Source''
      then (case first_source_action (actions st) of
              Some r \<Rightarrow> Some r
            | None \<Rightarrow> extract_from_stages sts)
      else extract_from_stages sts)"

definition extract_branch_from_pipeline_details ::
  "pipeline_details \<Rightarrow> (string option \<times> string option) option" where
  "extract_branch_from_pipeline_details pd = extract_from_stages (stages pd)"

text \<open>
  \<open>get_stage_details\<close>, the same function in the deployment-frequency, lead-time and
  mean-time-to-restore Lambdas up to logging: the list comprehension reads
  \<open>stage["latestExecution"]["status"]\<close> of every stage (a \<open>KeyError\<close> for a stage
  that has not run), a response without \<open>stageStates\<close> gives the empty list, and every
  exception, the platform's "pipeline not found" included, is caught and turned into
  \<open>None\<close>.
\<close>

fun stage_comprehension :: "stage_state list \<Rightarrow> exn + stage_detail list" where
  "stage_comprehension [] = Inr []"
| "stage_comprehension (s # ss) =
     (case latestExecution s of
        None \<Rightarrow> Inl KeyError
      | Some st \<Rightarrow>
         (case stage_comprehension ss of
            Inl e \<Rightarrow> Inl e
          | Inr r \<Rightarrow> Inr (\<lparr>sd_name = stageName s, sd_status = st\<rparr> # r)))"

definition get_stage_details :: "codepipeline \<Rightarrow> string \<Rightarrow> stage_detail list option" where
  "get_stage_details cp pipeline_name =
     (case get_pipeline_state cp pipeline_name of
        Inl e \<Rightarrow> None
      | Inr response \<Rightarrow>
         (case stageStates response of
            None \<Rightarrow> Some []
          | Some sts \<Rightarrow>
             (case stage_comprehension sts of Inl e \<Rightarrow> None | Inr r \<Rightarrow> Some r)))"

text \<open>
  \<open>any(stage["name"] == app_prod_stage_name and stage["status"] == "Succeeded"
  for stage in stage_details)\<close>, on a list.
\<close>

definition deploy_stage_success :: "config \<Rightarrow> stage_detail list \<Rightarrow> bool" where
  "deploy_stage_success cfg sds =
     list_ex (\<lambda>sd. Some (sd_name sd) = app_prod_stage_name cfg \<and> sd_status sd = ''Succeeded'') sds"

section \<open>Deployment frequency\<close>

definition deployment_frequency_metric :: "sample list" where
  "deployment_frequency_metric =
     [\<lparr>Namespace = ''DORA'', MetricName = ''DeploymentFrequency'', Unit = ''Count'', Value = 1\<rparr>]"

text \<open>The body of the \<open>try\<close> block of the handler, with the samples it published.\<close>

definition deployment_frequency_try ::
  "config \<Rightarrow> codepipeline \<Rightarrow> event \<Rightarrow> (exn + unit) \<times> sample list" where
  "deployment_frequency_try cfg cp ev =
     (case subscript (detail ev) of
        Inl e \<Rightarrow> (Inl e, [])
      | Inr d \<Rightarrow>
     (case subscript (state d) of
        Inl e \<Rightarrow> (Inl e, [])
      | Inr pipeline_execution_status \<Rightarrow>
     (case subscript (pipeline d) of
        Inl e \<Rightarrow> (Inl e, [])
      | Inr pipeline_name \<Rightarrow>
     (case get_pipeline cp pipeline_name of
        Inl e \<Rightarrow> (Inl e, [])
      | Inr details \<Rightarrow>
     (case extract_branch_from_pipeline_details details of
        None \<Rightarrow> (Inl TypeError, [])
      | Some (branch, repository_name) \<Rightarrow>
         (let stage_details = get_stage_details cp pipeline_name in
          (case py_in repository_name (app_repo_list cfg) of
             Inl e \<Rightarrow> (Inl e, [])
           | Inr is_app_repo \<Rightarrow>
              if is_app_repo
              then (case stage_details of
                      None \<Rightarrow> (Inl TypeError, [])
                    | Some sds \<Rightarrow>
                       if deploy_stage_success cfg sds
                       then (Inr (), deployment_frequency_metric)
                       else (Inr (), []))
              else if pipeline_execution_status = ''SUCCEEDED'' \<and> branch = Some ''master''
                   then (Inr (), deployment_frequency_metric)
                   else (Inr (), []))))))))"

definition deployment_frequency_lambda_handler ::
  "config \<Rightarrow> codepipeline \<Rightarrow> event \<Rightarrow> response \<times> sample list" where
  "deployment_frequency_lambda_handler cfg cp ev =
     (let outcome = deployment_frequency_try cfg cp ev in
      (case fst outcome of
         Inr u \<Rightarrow>
           (StatusCodeBody 200 ''Deployment frequency metric updated successfully'', snd outcome)
       | Inl e \<Rightarrow>
           (StatusCodeBody 500 ''Error processing the event'', snd outcome)))"

section \<open>Dates and durations\<close>

text \<open>
  A \<open>datetime\<close> is naive or timezone-aware; its number is the microseconds of its
  position on the time line (for an aware one, of its UTC instant). Subtracting two
  of the same kind gives a \<open>timedelta\<close>, here its count of microseconds; subtracting
  a naive and an aware one raises \<open>TypeError\<close>. \<open>total_seconds\<close> is the quotient by
  \<open>10 ^ 6\<close>, taken exactly: it is zero exactly when the \<open>timedelta\<close> is.
\<close>

datatype datetime = Naive int | Aware int

fun datetime_sub :: "datetime \<Rightarrow> datetime \<Rightarrow> exn + int" where
  "datetime_sub (Naive x) (Naive y) = Inr (x - y)"
| "datetime_sub (Aware x) (Aware y) = Inr (x - y)"
| "datetime_sub (Naive x) (Aware y) = Inl TypeError"
| "datetime_sub (Aware x) (Naive y) = Inl TypeError"

definition total_seconds :: "int \<Rightarrow> real" where
  "total_seconds td = real_of_int td / 1000000"

text \<open>
  The UTC instant of a civil date and time of day, by the proleptic Gregorian ordinal
  of the standard library (\<open>_ymd2ord\<close>): the value the date parser gives for an
  ISO-8601 string that ends in \<open>Z\<close>.
\<close>

definition is_leap :: "int \<Rightarrow> bool" where
  "is_leap y = (y mod 4 = 0 \<and> (y mod 100 \<noteq> 0 \<or> y mod 400 = 0))"

definition days_before_year :: "int \<Rightarrow> int" where
  "days_before_year y = (y - 1) * 365 + (y - 1) div 4 - (y - 1) div 100 + (y - 1) div 400"

definition days_in_month :: "int \<Rightarrow> nat \<Rightarrow> int" where
  "days_in_month y m =
     (if m = 2 \<and> is_leap y then 29
      else [31, 28, 31, 30, 31, 30, 31, 31, 30, 31, 30, 31] ! (m - 1))"

definition days_before_month :: "int \<Rightarrow> nat \<Rightarrow> int" where
  "days_before_month y m = sum_list (map (days_in_month y) [1..<m])"

definition ymd2ord :: "int \<Rightarrow> nat \<Rightarrow> int \<Rightarrow> int" where
  "ymd2ord y m d = days_before_year y + days_before_month y m + d"

definition utc_datetime :: "int \<Rightarrow> nat \<Rightarrow> int \<Rightarrow> int \<Rightarrow> int \<Rightarrow> int \<Rightarrow> datetime" where
  "utc_datetime y m d hh mm ss =
     Aware ((((ymd2ord y m d * 24 + hh) * 60 + mm) * 60 + ss) * 1000000)"

section \<open>The services around the handlers\<close>

record query_request =
  q_database :: "string option"
  q_table :: "string option"
  q_commit_id :: string
  q_repository_name :: string
  q_output_location :: "string option"

record ops_item_summary =
  OpsItemId :: string
  CreatedTime :: datetime

record ops_items =
  OpsItemSummaries :: "ops_item_summary list option"

text \<open>
  Everything outside the Lambdas: the CodePipeline client of the tooling account, the
  Athena client (a result row is the list of the \<open>VarCharValue\<close>s of its \<open>Data\<close>,
  \<open>None\<close> where the key is absent), the OpsCenter client (called with the one value
  of the \<open>OpsItemId\<close> filter), the successive readings of \<open>time.time()\<close> and the
  date parser.
\<close>

record world =
  codepipeline_client :: codepipeline
  start_query_execution :: "query_request \<Rightarrow> exn + string"
  get_query_execution :: "string \<Rightarrow> exn + string"
  get_query_results :: "string \<Rightarrow> exn + string option list list"
  describe_ops_items :: "string option \<Rightarrow> exn + ops_items"
  time_time :: "nat \<Rightarrow> real"
  parse :: "string \<Rightarrow> exn + datetime"

section \<open>Lead time for change\<close>

datatype athena_call = StartQueryExecution | GetQueryExecution | Sleep nat | GetQueryResults

text \<open>
  The \<open>try\<close> block at the end of \<open>query_athena_for_commits\<close>, entered with state
  SUCCEEDED: the second row's first value when it is there and not empty; every
  exception gives \<open>None\<close>.
\<close>

definition fetch_earliest_commit_time :: "world \<Rightarrow> string \<Rightarrow> string option" where
  "fetch_earliest_commit_time w qid =
     (case get_query_results w qid of
        Inl e \<Rightarrow> None
      | Inr rows \<Rightarrow>
         (case tl rows of
            [] \<Rightarrow> None
          | data_row # others \<Rightarrow>
             (case data_row of
                [] \<Rightarrow> None
              | first_datum # more_data \<Rightarrow>
                 (case first_datum of
                    None \<Rightarrow> None
                  | Some v \<Rightarrow> if v \<noteq> [] then Some v else None))))"

text \<open>
  \<open>query_athena_for_commits\<close>, with the calls it made. The status is read once before
  the loop; the loop body runs once, since each of its branches exits or breaks. The
  bound \<open>timeout\<close> is the literal 300 of the source.
\<close>

definition query_athena_for_commits ::
  "config \<Rightarrow> world \<Rightarrow> string \<Rightarrow> string \<Rightarrow> (raised + string option) \<times> athena_call list" where
  "query_athena_for_commits cfg w commit repository_name =
     (case start_query_execution w
             \<lparr>q_database = database cfg, q_table = table cfg, q_commit_id = commit,
              q_repository_name = repository_name, q_output_location = output_location cfg\<rparr> of
        Inl e \<Rightarrow> (Inl (Exc e), [StartQueryExecution])
      | Inr qid \<Rightarrow>
         (case get_query_execution w qid of
            Inl e \<Rightarrow> (Inl (Exc e), [StartQueryExecution, GetQueryExecution])
          | Inr query_state \<Rightarrow>
             (let start_time = time_time w 0; timeout = 300 in
              if query_state = ''FAILED''
              then (Inl (SystemExit 1), [StartQueryExecution, GetQueryExecution])
              else if time_time w 1 - start_time > timeout
              then (Inl (SystemExit 1), [StartQueryExecution, GetQueryExecution])
              else if query_state = ''SUCCEEDED''
              then (Inr (fetch_earliest_commit_time w qid),
                    [StartQueryExecution, GetQueryExecution, GetQueryResults])
              else (Inr None, [StartQueryExecution, GetQueryExecution, Sleep 10]))))"

text \<open>
  \<open>calculate_lead_time\<close>: the two parsed times, the event time first; \<open>None\<close> when
  either parse raises (\<open>parser.parse(None)\<close> raises \<open>TypeError\<close>).
\<close>

definition calculate_lead_time ::
  "world \<Rightarrow> string option \<Rightarrow> string \<Rightarrow> (datetime \<times> datetime) option" where
  "calculate_lead_time w earliest_commit_time pipeline_event_time =
     (case parse w pipeline_event_time of
        Inl e \<Rightarrow> None
      | Inr pipeline_event_time_new \<Rightarrow>
         (case earliest_commit_time of
            None \<Rightarrow> None
          | Some ect \<Rightarrow>
             (case parse w ect of
                Inl e \<Rightarrow> None
              | Inr earliest_commit_time_new \<Rightarrow>
                  Some (pipeline_event_time_new, earliest_commit_time_new))))"

definition lead_time_for_change_metric :: "real option \<Rightarrow> sample list" where
  "lead_time_for_change_metric duration_seconds =
     (case duration_seconds of
        None \<Rightarrow> []
      | Some v \<Rightarrow>
         [\<lparr>Namespace = ''DORA'', MetricName = ''LeadTimeForChange'', Unit = ''Seconds'',
           Value = v\<rparr>])"

text \<open>
  The three statements both release models share: the difference of the two times, its
  seconds, and the publication when the seconds are not zero.
\<close>

definition publish_duration :: "datetime \<Rightarrow> datetime \<Rightarrow> (raised + unit) \<times> sample list" where
  "publish_duration pipeline_event_time_new earliest_commit_time_new =
     (case datetime_sub pipeline_event_time_new earliest_commit_time_new of
        Inl e \<Rightarrow> (Inl (Exc e), [])
      | Inr duration \<Rightarrow>
         (let duration_seconds = total_seconds duration in
          if duration_seconds \<noteq> 0
          then (Inr (), lead_time_for_change_metric (Some duration_seconds))
          else (Inr (), [])))"

text \<open>
  The statements of the \<open>try\<close> block that follow the reading of the event: the
  query, the parsing, the stage details and the branch on the release model.
\<close>

definition lead_time_from_keys ::
  "config \<Rightarrow> world \<Rightarrow> string \<Rightarrow> string \<Rightarrow> string \<Rightarrow> string \<Rightarrow>
     (raised + unit) \<times> sample list" where
  "lead_time_from_keys cfg w pipeline_name commit repository_name pipeline_event_time =
     (case fst (query_athena_for_commits cfg w commit repository_name) of
        Inl r \<Rightarrow> (Inl r, [])
      | Inr earliest_commit_time \<Rightarrow>
     (case calculate_lead_time w earliest_commit_time pipeline_event_time of
        None \<Rightarrow> (Inl (Exc TypeError), [])
      | Some (pipeline_event_time_new, earliest_commit_time_new) \<Rightarrow>
         (let stage_details = get_stage_details (codepipeline_client w) pipeline_name in
          (case py_in (Some repository_name) (app_repo_list cfg) of
             Inl e \<Rightarrow> (Inl (Exc e), [])
           | Inr is_app_repo \<Rightarrow>
              if is_app_repo
              then (case stage_details of
                      None \<Rightarrow> (Inl (Exc TypeError), [])
                    | Some sds \<Rightarrow>
                       if deploy_stage_success cfg sds
                       then publish_duration pipeline_event_time_new earliest_commit_time_new
                       else (Inr (), []))
              else publish_duration pipeline_event_time_new earliest_commit_time_new))))"

text \<open>
  The \<open>try\<close> block of the handler: the four values it reads from the event, in the
  order of the source, and then the statements above.
\<close>

definition lead_time_try :: "config \<Rightarrow> world \<Rightarrow> event \<Rightarrow> (raised + unit) \<times> sample list" where
  "lead_time_try cfg w ev =
     (case subscript (detail ev) of
        Inl e \<Rightarrow> (Inl (Exc e), [])
      | Inr d \<Rightarrow>
     (case subscript (pipeline d) of
        Inl e \<Rightarrow> (Inl (Exc e), [])
      | Inr pipeline_name \<Rightarrow>
     (case subscript (execution_trigger d) of
        Inl e \<Rightarrow> (Inl (Exc e), [])
      | Inr tr \<Rightarrow>
     (case subscript (commit_id tr) of
        Inl e \<Rightarrow> (Inl (Exc e), [])
      | Inr commit \<Rightarrow>
     (case subscript (full_repository_name tr) of
        Inl e \<Rightarrow> (Inl (Exc e), [])
      | Inr repository_name \<Rightarrow>
     (case subscript (time ev) of
        Inl e \<Rightarrow> (Inl (Exc e), [])
      | Inr pipeline_event_time \<Rightarrow>
       lead_time_from_keys cfg w pipeline_name commit repository_name pipeline_event_time))))))"

text \<open>
  The handler: both \<open>except\<close> clauses log and fall through to the one \<open>return\<close>;
  \<open>SystemExit\<close> passes them.
\<close>

definition lead_time_lambda_handler ::
  "config \<Rightarrow> world \<Rightarrow> event \<Rightarrow> (raised + response) \<times> sample list" where
  "lead_time_lambda_handler cfg w ev =
     (let outcome = lead_time_try cfg w ev in
      (case fst outcome of
         Inr u \<Rightarrow> (Inr (Status ''success''), snd outcome)
       | Inl r \<Rightarrow>
          (case r of
             Exc e \<Rightarrow> (Inr (Status ''success''), snd outcome)
           | SystemExit n \<Rightarrow> (Inl (SystemExit n), snd outcome))))"

section \<open>Mean time to restore\<close>

text \<open>
  The regular expression \<open>from [^/]+/(.+?)(?:\n|$)\<close> tried at the start of a string:
  the literal, then the characters up to the first slash (at least one, and the slash
  must be there), then group 1, the rest of the line after that slash, which has at
  least one character. No other way of matching from this start exists: the class
  cannot pass a slash, and the dot cannot pass a line feed.
\<close>

definition pattern_match_here :: "string \<Rightarrow> string option" where
  "pattern_match_here s =
     (if startswith s ''from ''
      then (let r = drop 5 s;
                before_slash = takeWhile (\<lambda>c. c \<noteq> CHR ''/'') r;
                from_slash = dropWhile (\<lambda>c. c \<noteq> CHR ''/'') r
            in if before_slash = [] \<or> from_slash = [] then None
               else (let group1 = takeWhile (\<lambda>c. c \<noteq> CHR 0x0A) (tl from_slash)
                     in if group1 = [] then None else Some group1))
      else None)"

text \<open>\<open>re.search\<close>: the match at the leftmost start that has one.\<close>

fun re_search_pattern :: "string \<Rightarrow> string option" where
  "re_search_pattern [] = None"
| "re_search_pattern (c # cs) =
     (case pattern_match_here (c # cs) of
        Some g \<Rightarrow> Some g
      | None \<Rightarrow> re_search_pattern cs)"

definition known_prefixes :: "string list" where
  "known_prefixes = [''fix'', ''hotfix'']"

definition known_suffixes :: "string list" where
  "known_suffixes = [''hotfix'', ''fix'']"

definition extract_source_branch_name :: "string \<Rightarrow> string option" where
  "extract_source_branch_name message =
     (case re_search_pattern message of
        None \<Rightarrow> None
      | Some branch \<Rightarrow>
         (let parts = py_split (CHR ''/'') branch in
          if length parts = 3 \<and> hd parts \<in> set known_prefixes \<and> last parts \<in> set known_suffixes
          then Some (parts ! 1)
          else Some (last parts)))"

text \<open>
  \<open>calculate_downtime\<close>: \<open>parse(None)\<close> raises \<open>TypeError\<close>, and so does the
  subtraction of \<open>None\<close> from a \<open>datetime\<close>.
\<close>

definition calculate_downtime ::
  "world \<Rightarrow> datetime option \<Rightarrow> string option \<Rightarrow> exn + real" where
  "calculate_downtime w creation_time final_time_str =
     (case final_time_str of
        None \<Rightarrow> Inl TypeError
      | Some s \<Rightarrow>
         (case parse w s of
            Inl e \<Rightarrow> Inl e
          | Inr final_time \<Rightarrow>
             (case creation_time of
                None \<Rightarrow> Inl TypeError
              | Some ct \<Rightarrow>
                 (case datetime_sub final_time ct of
                    Inl e \<Rightarrow> Inl e
                  | Inr td \<Rightarrow> Inr (total_seconds td)))))"

definition send_to_cloudwatch :: "real \<Rightarrow> sample list" where
  "send_to_cloudwatch downtime_seconds =
     [\<lparr>Namespace = ''DORA/MeanTimeToRestore'', MetricName = ''Downtime-OPS-Item'',
       Unit = ''Seconds'', Value = downtime_seconds\<rparr>]"

text \<open>
  The block of the handler that looks the incident up: for an event on the default
  branch in state SUCCEEDED, the event time and the creation time of the first summary
  the incident store returns, if any; otherwise both stay \<open>None\<close>, as initialised.
\<close>

definition find_creation_time ::
  "config \<Rightarrow> world \<Rightarrow> event \<Rightarrow> string \<Rightarrow> string \<Rightarrow> string \<Rightarrow>
     exn + (datetime option \<times> string option)" where
  "find_creation_time cfg w ev branch pipeline_state message =
     (if Some branch = default_branch cfg \<and> pipeline_state = ''SUCCEEDED''
      then (case subscript (time ev) of
              Inl e \<Rightarrow> Inl e
            | Inr final_time \<Rightarrow>
               (let source_reference = extract_source_branch_name message in
                (case describe_ops_items w source_reference of
                   Inl e \<Rightarrow> Inl e
                 | Inr found \<Rightarrow>
                    (case OpsItemSummaries found of
                       None \<Rightarrow> Inr (None, Some final_time)
                     | Some summaries \<Rightarrow>
                        (case summaries of
                           [] \<Rightarrow> Inr (None, Some final_time)
                         | ops_item # others \<Rightarrow>
                             Inr (Some (CreatedTime ops_item), Some final_time))))))
      else Inr (None, None))"

definition restore_metric_updated :: response where
  "restore_metric_updated =
     StatusCodeBody 200 ''Mean time to restore metric updated successfully''"

text \<open>
  The last statements of the handler, from \<open>get_stage_details\<close> on: the branch on
  the release model and the publication of the downtime. The test \<open>"creation_time" in locals() and "final_time"
  in locals()\<close> is true on every path, both names being assigned \<open>None\<close> before it, so
  it does not appear. (\<open>source_reference\<close> is passed to \<open>send_to_cloudwatch\<close> for its
  log line only; where it is unbound, \<open>calculate_downtime\<close> has raised before.)
\<close>

definition restore_time_from_times ::
  "config \<Rightarrow> world \<Rightarrow> string \<Rightarrow> string \<Rightarrow> datetime option \<Rightarrow> string option \<Rightarrow>
     (exn + response) \<times> sample list" where
  "restore_time_from_times cfg w pipeline_name repository_name creation_time final_time =
     (let stage_details = get_stage_details (codepipeline_client w) pipeline_name in
      (case py_in (Some repository_name) (app_repo_list cfg) of
         Inl e \<Rightarrow> (Inl e, [])
       | Inr is_app_repo \<Rightarrow>
          if is_app_repo
          then (case stage_details of
                  None \<Rightarrow> (Inl TypeError, [])
                | Some sds \<Rightarrow>
                   if deploy_stage_success cfg sds
                   then (case calculate_downtime w creation_time final_time of
                           Inl e \<Rightarrow> (Inl e, [])
                         | Inr downtime_seconds \<Rightarrow>
                             if downtime_seconds \<noteq> 0
                             then (Inr restore_metric_updated,
                                   send_to_cloudwatch downtime_seconds)
                             else (Inr restore_metric_updated, []))
                   else (Inr restore_metric_updated, []))
          else (case calculate_downtime w creation_time final_time of
                  Inl e \<Rightarrow> (Inl e, [])
                | Inr downtime_seconds \<Rightarrow>
                    (Inr restore_metric_updated, send_to_cloudwatch downtime_seconds))))"

text \<open>
  The handler: the five values it reads from the event, in the order of the source,
  the call of \<open>get_pipeline\<close>, the incident lookup, and then the statements above.
  There is no \<open>try\<close> around the body: only "pipeline not found" from
  \<open>get_pipeline\<close> is caught, and every other exception leaves the handler.
\<close>

definition mean_time_to_restore_lambda_handler ::
  "config \<Rightarrow> world \<Rightarrow> event \<Rightarrow> (exn + response) \<times> sample list" where
  "mean_time_to_restore_lambda_handler cfg w ev =
     (case subscript (detail ev) of
        Inl e \<Rightarrow> (Inl e, [])
      | Inr d \<Rightarrow>
     (case subscript (pipeline d) of
        Inl e \<Rightarrow> (Inl e, [])
      | Inr pipeline_name \<Rightarrow>
     (case subscript (state d) of
        Inl e \<Rightarrow> (Inl e, [])
      | Inr pipeline_state \<Rightarrow>
     (case subscript (execution_trigger d) of
        Inl e \<Rightarrow> (Inl e, [])
      | Inr tr \<Rightarrow>
     (case subscript (full_repository_name tr) of
        Inl e \<Rightarrow> (Inl e, [])
      | Inr repository_name \<Rightarrow>
     (case subscript (branch_name tr) of
        Inl e \<Rightarrow> (Inl e, [])
      | Inr branch \<Rightarrow>
     (case subscript (commit_message tr) of
        Inl e \<Rightarrow> (Inl e, [])
      | Inr message \<Rightarrow>
     (case get_pipeline (codepipeline_client w) pipeline_name of
        Inl e \<Rightarrow>
          if e = PipelineNotFoundException
          then (Inr (StatusCodeBody 500 ''Pipeline not found''), [])
          else (Inl e, [])
      | Inr details \<Rightarrow>
     (case find_creation_time cfg w ev branch pipeline_state message of
        Inl e \<Rightarrow> (Inl e, [])
      | Inr found_times \<Rightarrow>
          restore_time_from_times cfg w pipeline_name repository_name
            (fst found_times) (snd found_times))))))))))"

section \<open>Change failure rate\<close>

definition failed_deployments_metric :: "sample list" where
  "failed_deployments_metric =
     [\<lparr>Namespace = ''DORA/ChangeFailureRate'', MetricName = ''TotalFailedItems'',
       Unit = ''Count'', Value = 1\<rparr>]"

definition change_failure_rate_lambda_handler :: "event \<Rightarrow> response \<times> sample list" where
  "change_failure_rate_lambda_handler ev =
     (case subscript (detail_type ev) of
        Inl e \<Rightarrow> (StatusCodeBody 500 ''Error processing the event'', [])
      | Inr dtype \<Rightarrow>
     (case subscript (detail ev) of
        Inl e \<Rightarrow> (StatusCodeBody 500 ''Error processing the event'', [])
      | Inr d \<Rightarrow>
     (case subscript (status d) of
        Inl e \<Rightarrow> (StatusCodeBody 500 ''Error processing the event'', [])
      | Inr ops_item_status \<Rightarrow>
          if dtype = ''OpsItem Create'' \<and> ops_item_status = ''Open''
          then (StatusCodeBody 200 ''Metric updated successfully'', failed_deployments_metric)
          else (StatusCodeBody 200 ''Metric updated successfully'', []))))"

section \<open>What the specification says, for comparison\<close>

text \<open>
  The specification's reading of \<open>getSourceConfig\<close>: the first stage named Source
  that has a source-category action, and the first such action in it.
\<close>

definition is_source_action :: "action \<Rightarrow> bool" where
  "is_source_action a = (category a = ''Source'')"

definition is_source_stage :: "stage \<Rightarrow> bool" where
  "is_source_stage st = (name st = ''Source'' \<and> list_ex is_source_action (actions st))"

text \<open>
  The specification's condition for a deployment-frequency sample, in its own words,
  for a configured set of trunk-based repository names and a configured production-stage
  name. The event has a state and names a pipeline the platform knows, whose source
  configuration names a repository. If that repository is a member of the configured
  set (trunk-based model), some stage state of the pipeline named by the
  production-stage name has status Succeeded; if it is not (release-branch model), the
  event's state is SUCCEEDED and the source branch is master.
\<close>

definition spec_deployment_frequency_emits ::
  "string set \<Rightarrow> string \<Rightarrow> codepipeline \<Rightarrow> event \<Rightarrow> bool" where
  "spec_deployment_frequency_emits trunk_based_repos prod_stage_name cp ev =
     (\<exists>d pipeline_state pipeline_name details st a repository_name.
        detail ev = Some d \<and> state d = Some pipeline_state \<and> pipeline d = Some pipeline_name
        \<and> get_pipeline cp pipeline_name = Inr details
        \<and> find is_source_stage (stages details) = Some st
        \<and> find is_source_action (actions st) = Some a
        \<and> map_of (configuration a) ''RepositoryName'' = Some repository_name
        \<and> (if repository_name \<in> trunk_based_repos
           then (\<exists>response sts s.
                    get_pipeline_state cp pipeline_name = Inr response
                    \<and> stageStates response = Some sts \<and> s \<in> set sts
                    \<and> stageName s = prod_stage_name
                    \<and> latestExecution s = Some ''Succeeded'')
           else pipeline_state = ''SUCCEEDED''
                \<and> map_of (configuration a) ''BranchName'' = Some ''master''))"


section \<open>Concrete inputs\<close>

text \<open>
  The configuration of the unit tests: the names of \<open>constants.py\<close>, joined with
  commas into the environment variable.
\<close>

definition APP_REPOSITORY_NAMES :: "string list" where
  "APP_REPOSITORY_NAMES = [''repo-app-sample-1'', ''amazon/github-dora'', ''app1'']"

definition test_config :: config where
  "test_config =
     \<lparr>default_branch = Some ''main'', app_prod_stage_name = Some ''DeployPROD'',
      app_repo_list = Some (py_join '','' APP_REPOSITORY_NAMES),
      output_location = Some ''s3://github-athena-dora/'', database = Some ''github_logs_db'',
      table = Some ''github_logs_table''\<rparr>"

definition source_stage :: "string \<Rightarrow> string \<Rightarrow> stage" where
  "source_stage branch repo =
     \<lparr>name = ''Source'',
      actions = [\<lparr>category = ''Source'',
                  configuration = [(''BranchName'', branch), (''RepositoryName'', repo)]\<rparr>]\<rparr>"

text \<open>A platform that knows one pipeline, with its declared stages and its stage states.\<close>

definition one_pipeline :: "string \<Rightarrow> stage list \<Rightarrow> stage_state list \<Rightarrow> codepipeline" where
  "one_pipeline pname declared states =
     \<lparr>get_pipeline = (\<lambda>n. if n = pname then Inr \<lparr>stages = declared\<rparr>
                            else Inl PipelineNotFoundException),
      get_pipeline_state = (\<lambda>n. if n = pname then Inr \<lparr>stageStates = Some states\<rparr>
                                  else Inl PipelineNotFoundException)\<rparr>"

definition prod_succeeded :: "stage_state list" where
  "prod_succeeded = [\<lparr>stageName = ''DeployPROD'', latestExecution = Some ''Succeeded''\<rparr>]"

definition prod_failed :: "stage_state list" where
  "prod_failed = [\<lparr>stageName = ''DeployPROD'', latestExecution = Some ''Failed''\<rparr>]"

definition pipeline_event :: "string \<Rightarrow> string \<Rightarrow> event" where
  "pipeline_event pname st =
     \<lparr>detail_type = None,
      detail = Some \<lparr>pipeline = Some pname, state = Some st, execution_trigger = None,
                     status = None\<rparr>,
      time = Some ''2023-01-01T01:00:00Z''\<rparr>"

text \<open>
  A date parser that knows the two times of the unit tests, and the world of those
  tests: the query has the given state and the clock has advanced by the given number
  of seconds when it is checked, the result set has a header row and one data row, and
  the incident store returns the given summaries.
\<close>

definition test_parse :: "string \<Rightarrow> exn + datetime" where
  "test_parse s =
     (if s = ''2023-01-01T00:00:00Z'' then Inr (utc_datetime 2023 1 1 0 0 0)
      else if s = ''2023-01-01T01:00:00Z'' then Inr (utc_datetime 2023 1 1 1 0 0)
      else Inl ParserError)"

definition test_world ::
  "codepipeline \<Rightarrow> string \<Rightarrow> real \<Rightarrow> ops_item_summary list \<Rightarrow> world" where
  "test_world cp query_state elapsed summaries =
     \<lparr>codepipeline_client = cp,
      start_query_execution = (\<lambda>request. Inr ''1234-5678-91011''),
      get_query_execution = (\<lambda>qid. Inr query_state),
      get_query_results =
        (\<lambda>qid. Inr [[Some ''earliest_commit_time''], [Some ''2023-01-01T00:00:00Z'']]),
      describe_ops_items = (\<lambda>source_reference. Inr \<lparr>OpsItemSummaries = Some summaries\<rparr>),
      time_time = (\<lambda>k. if k = 0 then 0 else elapsed),
      parse = test_parse\<rparr>"

definition trigger_event :: "string \<Rightarrow> string \<Rightarrow> string \<Rightarrow> string \<Rightarrow> string \<Rightarrow> event" where
  "trigger_event pname st repo branch message =
     \<lparr>detail_type = None,
      detail = Some \<lparr>pipeline = Some pname, state = Some st,
                     execution_trigger =
                       Some \<lparr>commit_id = Some ''abc123'', full_repository_name = Some repo,
                             branch_name = Some branch, commit_message = Some message\<rparr>,
                     status = None\<rparr>,
      time = Some ''2023-01-01T01:00:00Z''\<rparr>"

definition github_dora_test :: codepipeline where
  "github_dora_test = one_pipeline ''github-dora-test'' [source_stage ''main'' ''repo1''] prod_succeeded"

section \<open>Properties\<close>

lemmas deployment_frequency_defs =
  deployment_frequency_lambda_handler_def deployment_frequency_try_def
  deployment_frequency_metric_def subscript_def

lemmas concrete_defs =
  APP_REPOSITORY_NAMES_def test_config_def source_stage_def one_pipeline_def
  prod_succeeded_def prod_failed_def pipeline_event_def

lemmas world_defs =
  test_parse_def test_world_def trigger_event_def github_dora_test_def

subsection \<open>Release-model classification\<close>

text \<open>
  C1 (the classification is an exact membership test in the configured set). The
  handlers test \<open>repository_name in app_repo_list\<close> on the environment string, which is
  a substring test. With the names of \<open>constants.py\<close>, the repository \<open>app\<close> is not
  one of the configured names, yet the test succeeds, and the deployment-frequency
  handler takes the trunk-based branch: for a pipeline of that repository whose
  production stage has succeeded, it publishes a sample although the event's state is
  FAILED and the source branch is develop, which the release-branch logic would reject.
\<close>

theorem substring_of_configured_name_is_trunk_based:
  "''app'' \<notin> set APP_REPOSITORY_NAMES
   \<and> py_in (Some ''app'') (app_repo_list test_config) = Inr True
   \<and> deployment_frequency_lambda_handler test_config
        (one_pipeline ''p'' [source_stage ''develop'' ''app''] prod_succeeded)
        (pipeline_event ''p'' ''FAILED'')
      = (StatusCodeBody 200 ''Deployment frequency metric updated successfully'',
         deployment_frequency_metric)"
  by (simp add: concrete_defs deployment_frequency_defs py_in_def startswith_def
      extract_branch_from_pipeline_details_def get_stage_details_def deploy_stage_success_def)

subsection \<open>The source configuration of a pipeline\<close>

lemma first_source_action_find:
  "first_source_action as =
     map_option (\<lambda>a. (map_of (configuration a) ''BranchName'',
                      map_of (configuration a) ''RepositoryName''))
       (find is_source_action as)"
  by (induction as) (simp_all add: is_source_action_def)

lemma first_source_action_None:
  "(first_source_action as = None) = (\<not> list_ex is_source_action as)"
  by (induction as) (simp_all add: is_source_action_def)

lemma extract_from_stages_find:
  "extract_from_stages sts =
     (case find is_source_stage sts of
        None \<Rightarrow> None
      | Some st \<Rightarrow> first_source_action (actions st))"
proof (induction sts)
  case Nil
  show ?case by simp
next
  case (Cons st sts)
  show ?case
  proof (cases "is_source_stage st")
    case True
    then have "first_source_action (actions st) \<noteq> None"
      by (simp add: first_source_action_None is_source_stage_def)
    with True show ?thesis
      by (auto simp add: is_source_stage_def)
  next
    case False
    then have "name st = ''Source'' \<Longrightarrow> first_source_action (actions st) = None"
      by (simp add: first_source_action_None is_source_stage_def)
    with False Cons show ?thesis by simp
  qed
qed

text \<open>
  C8, as the code has it: when no declared stage is named Source and has a
  source-category action, \<open>extract_branch_from_pipeline_details\<close> returns \<open>None\<close>, a
  sentinel that is not a pair; when such a stage exists, it returns the pair of the
  \<open>BranchName\<close> and \<open>RepositoryName\<close> entries of the configuration of the first
  source-category action of the first such stage.
\<close>

theorem extract_branch_none_or_first_source_action:
  "(\<not> list_ex is_source_stage (stages pd)
      \<longrightarrow> extract_branch_from_pipeline_details pd = None)
   \<and> (find is_source_stage (stages pd) = Some st \<and> find is_source_action (actions st) = Some a
      \<longrightarrow> extract_branch_from_pipeline_details pd =
            Some (map_of (configuration a) ''BranchName'',
                  map_of (configuration a) ''RepositoryName''))"
proof (intro conjI impI)
  assume "\<not> list_ex is_source_stage (stages pd)"
  then have "find is_source_stage (stages pd) = None"
    by (simp add: find_None_iff list_ex_iff)
  then show "extract_branch_from_pipeline_details pd = None"
    by (simp add: extract_branch_from_pipeline_details_def extract_from_stages_find)
next
  assume "find is_source_stage (stages pd) = Some st \<and> find is_source_action (actions st) = Some a"
  then show "extract_branch_from_pipeline_details pd =
            Some (map_of (configuration a) ''BranchName'',
                  map_of (configuration a) ''RepositoryName'')"
    by (simp add: extract_branch_from_pipeline_details_def extract_from_stages_find
        first_source_action_find)
qed

theorem extract_branch_none_or_first_source_action_witness:
  "\<not> list_ex is_source_stage (stages \<lparr>stages = [\<lparr>name = ''Build'', actions = []\<rparr>]\<rparr>)
   \<and> extract_branch_from_pipeline_details \<lparr>stages = [\<lparr>name = ''Build'', actions = []\<rparr>]\<rparr> = None
   \<and> find is_source_stage (stages \<lparr>stages = [source_stage ''main'' ''repo1'']\<rparr>)
       = Some (source_stage ''main'' ''repo1'')
   \<and> find is_source_action (actions (source_stage ''main'' ''repo1''))
       = Some \<lparr>category = ''Source'',
               configuration = [(''BranchName'', ''main''), (''RepositoryName'', ''repo1'')]\<rparr>
   \<and> extract_branch_from_pipeline_details \<lparr>stages = [source_stage ''main'' ''repo1'']\<rparr>
       = Some (Some ''main'', Some ''repo1'')"
  using extract_branch_none_or_first_source_action
          [of "\<lparr>stages = [\<lparr>name = ''Build'', actions = []\<rparr>]\<rparr>"]
        extract_branch_none_or_first_source_action
          [of "\<lparr>stages = [source_stage ''main'' ''repo1'']\<rparr>" "source_stage ''main'' ''repo1''"
              "\<lparr>category = ''Source'',
                configuration = [(''BranchName'', ''main''), (''RepositoryName'', ''repo1'')]\<rparr>"]
  by (simp add: is_source_stage_def is_source_action_def source_stage_def)

text \<open>
  C8, as the specification states it, fails: for a pipeline without a Source stage the
  function returns no pair at all, not even the pair of two absent values, and the
  caller, which unpacks the result into \<open>branch_name, repository_name\<close>, raises
  \<open>TypeError\<close>, so that the handler answers with status code 500.
\<close>

theorem extract_branch_not_found_is_no_pair:
  "extract_branch_from_pipeline_details \<lparr>stages = [\<lparr>name = ''Build'', actions = []\<rparr>]\<rparr>
     \<noteq> Some (None, None)
   \<and> deployment_frequency_try test_config
        (one_pipeline ''p'' [\<lparr>name = ''Build'', actions = []\<rparr>] prod_succeeded)
        (pipeline_event ''p'' ''SUCCEEDED'')
      = (Inl TypeError, [])
   \<and> deployment_frequency_lambda_handler test_config
        (one_pipeline ''p'' [\<lparr>name = ''Build'', actions = []\<rparr>] prod_succeeded)
        (pipeline_event ''p'' ''SUCCEEDED'')
      = (StatusCodeBody 500 ''Error processing the event'', [])"
  by (simp add: concrete_defs deployment_frequency_defs extract_branch_from_pipeline_details_def)

subsection \<open>Deployment frequency\<close>

lemma deployment_frequency_try_published:
  "snd (deployment_frequency_try cfg cp ev) = []
   \<or> snd (deployment_frequency_try cfg cp ev) = deployment_frequency_metric"
  by (simp add: deployment_frequency_try_def subscript_def py_in_def Let_def
      split: sum.splits option.splits prod.splits)

lemma deployment_frequency_published:
  "length (snd (deployment_frequency_lambda_handler cfg cp ev)) \<le> 1"
proof -
  have "snd (deployment_frequency_lambda_handler cfg cp ev)
      = snd (deployment_frequency_try cfg cp ev)"
    by (simp add: deployment_frequency_lambda_handler_def Let_def split: sum.splits)
  with deployment_frequency_try_published [of cfg cp ev] show ?thesis
    by (auto simp add: deployment_frequency_metric_def)
qed

text \<open>
  C5 (one DeploymentFrequency sample exactly when the trunk-based or the release-branch
  condition holds, with the model decided by membership in the configured set). The
  handler decides the model by the substring test of C1, so the equivalence fails in
  both directions for the repository \<open>app\<close>, which is not one of the configured
  names of \<open>constants.py\<close>. With state FAILED, source branch develop and a production
  stage that has succeeded, the condition does not hold and yet one sample is published;
  with state SUCCEEDED, source branch master and a production stage that has failed,
  the condition holds and nothing is published.
\<close>

theorem deployment_frequency_decided_by_substring_test:
  "app_repo_list test_config = Some (py_join '','' APP_REPOSITORY_NAMES)
   \<and> app_prod_stage_name test_config = Some ''DeployPROD''
   \<and> \<not> spec_deployment_frequency_emits (set APP_REPOSITORY_NAMES) ''DeployPROD''
         (one_pipeline ''p'' [source_stage ''develop'' ''app''] prod_succeeded)
         (pipeline_event ''p'' ''FAILED'')
   \<and> snd (deployment_frequency_lambda_handler test_config
             (one_pipeline ''p'' [source_stage ''develop'' ''app''] prod_succeeded)
             (pipeline_event ''p'' ''FAILED''))
       = [\<lparr>Namespace = ''DORA'', MetricName = ''DeploymentFrequency'', Unit = ''Count'',
           Value = 1\<rparr>]
   \<and> spec_deployment_frequency_emits (set APP_REPOSITORY_NAMES) ''DeployPROD''
         (one_pipeline ''p'' [source_stage ''master'' ''app''] prod_failed)
         (pipeline_event ''p'' ''SUCCEEDED'')
   \<and> snd (deployment_frequency_lambda_handler test_config
             (one_pipeline ''p'' [source_stage ''master'' ''app''] prod_failed)
             (pipeline_event ''p'' ''SUCCEEDED''))
       = []"
proof -
  have a: "app_repo_list test_config = Some (py_join '','' APP_REPOSITORY_NAMES)"
    by (simp add: test_config_def)
  have b: "app_prod_stage_name test_config = Some ''DeployPROD''"
    by (simp add: test_config_def)
  have c: "\<not> spec_deployment_frequency_emits (set APP_REPOSITORY_NAMES) ''DeployPROD''
         (one_pipeline ''p'' [source_stage ''develop'' ''app''] prod_succeeded)
         (pipeline_event ''p'' ''FAILED'')"
    by (simp add: spec_deployment_frequency_emits_def concrete_defs is_source_stage_def
        is_source_action_def)
  have d: "snd (deployment_frequency_lambda_handler test_config
             (one_pipeline ''p'' [source_stage ''develop'' ''app''] prod_succeeded)
             (pipeline_event ''p'' ''FAILED''))
       = [\<lparr>Namespace = ''DORA'', MetricName = ''DeploymentFrequency'', Unit = ''Count'',
           Value = 1\<rparr>]"
    by code_simp
  have e: "spec_deployment_frequency_emits (set APP_REPOSITORY_NAMES) ''DeployPROD''
         (one_pipeline ''p'' [source_stage ''master'' ''app''] prod_failed)
         (pipeline_event ''p'' ''SUCCEEDED'')"
    by (simp add: spec_deployment_frequency_emits_def concrete_defs is_source_stage_def
        is_source_action_def)
  have f: "snd (deployment_frequency_lambda_handler test_config
             (one_pipeline ''p'' [source_stage ''master'' ''app''] prod_failed)
             (pipeline_event ''p'' ''SUCCEEDED''))
       = []"
    by code_simp
  from a b c d e f show ?thesis by blast
qed

subsection \<open>Incident identifiers\<close>








subsection \<open>Lead time for change\<close>

lemma lead_time_try_cases:
  "lead_time_try cfg w ev = (Inl (Exc KeyError), [])
   \<or> (\<exists>d pn tr c r t.
         detail ev = Some d \<and> pipeline d = Some pn \<and> execution_trigger d = Some tr
         \<and> commit_id tr = Some c \<and> full_repository_name tr = Some r \<and> time ev = Some t
         \<and> lead_time_try cfg w ev = lead_time_from_keys cfg w pn c r t)"
  by (simp add: lead_time_try_def subscript_def split: option.splits)

lemma lead_time_try_keys:
  "detail ev = Some d \<Longrightarrow> pipeline d = Some pn \<Longrightarrow> execution_trigger d = Some tr
   \<Longrightarrow> commit_id tr = Some c \<Longrightarrow> full_repository_name tr = Some r \<Longrightarrow> time ev = Some t
   \<Longrightarrow> lead_time_try cfg w ev = lead_time_from_keys cfg w pn c r t"
  by (simp add: lead_time_try_def subscript_def)

lemma query_athena_for_commits_exit:
  assumes "fst (query_athena_for_commits cfg w c r) = Inl (SystemExit n)"
  shows "n = 1 \<and> (\<exists>qid st.
           start_query_execution w
             \<lparr>q_database = database cfg, q_table = table cfg, q_commit_id = c,
              q_repository_name = r, q_output_location = output_location cfg\<rparr> = Inr qid
           \<and> get_query_execution w qid = Inr st
           \<and> (st = ''FAILED'' \<or> time_time w 1 - time_time w 0 > 300))"
  using assms
  by (simp add: query_athena_for_commits_def Let_def split: sum.splits if_splits)

lemma publish_duration_cases:
  "publish_duration t1 t0 = (Inl (Exc TypeError), [])
   \<or> publish_duration t1 t0 = (Inr (), [])
   \<or> (\<exists>td. datetime_sub t1 t0 = Inr td \<and> td \<noteq> 0
         \<and> publish_duration t1 t0 =
             (Inr (), [\<lparr>Namespace = ''DORA'', MetricName = ''LeadTimeForChange'',
                        Unit = ''Seconds'', Value = total_seconds td\<rparr>]))"
  by (cases t1; cases t0)
     (simp_all add: publish_duration_def lead_time_for_change_metric_def total_seconds_def)

lemma calculate_lead_time_Some:
  "calculate_lead_time w earliest t = Some (t1, t0) \<Longrightarrow>
     \<exists>e. earliest = Some e \<and> parse w t = Inr t1 \<and> parse w e = Inr t0"
  by (simp add: calculate_lead_time_def split: sum.splits option.splits)

lemma lead_time_from_keys_cases:
  "(\<exists>x. lead_time_from_keys cfg w pn c r t = (Inl (Exc x), []))
   \<or> lead_time_from_keys cfg w pn c r t = (Inr (), [])
   \<or> (\<exists>n. fst (query_athena_for_commits cfg w c r) = Inl (SystemExit n)
          \<and> lead_time_from_keys cfg w pn c r t = (Inl (SystemExit n), []))
   \<or> (\<exists>earliest t1 t0 td.
         fst (query_athena_for_commits cfg w c r) = Inr (Some earliest)
         \<and> parse w t = Inr t1 \<and> parse w earliest = Inr t0
         \<and> datetime_sub t1 t0 = Inr td \<and> td \<noteq> 0
         \<and> lead_time_from_keys cfg w pn c r t =
             (Inr (), [\<lparr>Namespace = ''DORA'', MetricName = ''LeadTimeForChange'',
                        Unit = ''Seconds'', Value = total_seconds td\<rparr>]))"
proof (cases "fst (query_athena_for_commits cfg w c r)")
  case (Inl x)
  then show ?thesis by (cases x) (simp_all add: lead_time_from_keys_def)
next
  case q: (Inr earliest)
  show ?thesis
  proof (cases "calculate_lead_time w earliest t")
    case None
    with q show ?thesis by (simp add: lead_time_from_keys_def)
  next
    case (Some p)
    then obtain t1 t0 where p: "calculate_lead_time w earliest t = Some (t1, t0)"
      by (cases p) simp
    from calculate_lead_time_Some [OF p] obtain e where
      e: "earliest = Some e" "parse w t = Inr t1" "parse w e = Inr t0" by blast
    have rest: "lead_time_from_keys cfg w pn c r t = (Inl (Exc TypeError), [])
       \<or> lead_time_from_keys cfg w pn c r t = (Inr (), [])
       \<or> lead_time_from_keys cfg w pn c r t = publish_duration t1 t0"
      using q p
      by (simp add: lead_time_from_keys_def py_in_def Let_def split: option.splits)
    from rest publish_duration_cases [of t1 t0] q e show ?thesis
      by (elim disjE exE conjE) simp_all
  qed
qed


lemma lead_time_lambda_handler_cases:
  "lead_time_lambda_handler cfg w ev = (Inr (Status ''success''), snd (lead_time_try cfg w ev))
   \<or> (\<exists>n. fst (lead_time_try cfg w ev) = Inl (SystemExit n)
          \<and> lead_time_lambda_handler cfg w ev = (Inl (SystemExit n), snd (lead_time_try cfg w ev)))"
  by (simp add: lead_time_lambda_handler_def Let_def split: sum.splits raised.splits)

text \<open>
  C10: whatever the event, the lead-time handler returns \<open>{"status": "success"}\<close>,
  unless the query client ended the process: the event had the keys read before the
  query, and the query was seen in state FAILED or the clock had advanced by more than
  300 seconds, in which case \<open>SystemExit\<close> leaves the handler. In particular an event
  without \<open>detail\<close> gives the success value, and so does every event when the query
  client does not exit.
\<close>

theorem lead_time_handler_success_unless_exit:
  "(fst (lead_time_lambda_handler cfg w ev) = Inr (Status ''success'')
    \<or> (\<exists>d tr c r qid st.
          detail ev = Some d \<and> execution_trigger d = Some tr
          \<and> commit_id tr = Some c \<and> full_repository_name tr = Some r
          \<and> start_query_execution w
               \<lparr>q_database = database cfg, q_table = table cfg, q_commit_id = c,
             q_repository_name = r, q_output_location = output_location cfg\<rparr> = Inr qid
          \<and> get_query_execution w qid = Inr st
          \<and> (st = ''FAILED'' \<or> time_time w 1 - time_time w 0 > 300)
          \<and> fst (lead_time_lambda_handler cfg w ev) = Inl (SystemExit 1)))
   \<and> (detail ev = None \<longrightarrow> lead_time_lambda_handler cfg w ev = (Inr (Status ''success''), []))
   \<and> ((\<forall>c r n. fst (query_athena_for_commits cfg w c r) \<noteq> Inl (SystemExit n))
        \<longrightarrow> fst (lead_time_lambda_handler cfg w ev) = Inr (Status ''success''))"
proof -
  have main: "fst (lead_time_lambda_handler cfg w ev) = Inr (Status ''success'')
    \<or> (\<exists>d tr c r n.
          detail ev = Some d \<and> execution_trigger d = Some tr
          \<and> commit_id tr = Some c \<and> full_repository_name tr = Some r
          \<and> fst (query_athena_for_commits cfg w c r) = Inl (SystemExit n)
          \<and> fst (lead_time_lambda_handler cfg w ev) = Inl (SystemExit n))"
  proof (cases "fst (lead_time_lambda_handler cfg w ev) = Inr (Status ''success'')")
    case True
    then show ?thesis by simp
  next
    case False
    with lead_time_lambda_handler_cases [of cfg w ev] obtain n where
      n: "fst (lead_time_try cfg w ev) = Inl (SystemExit n)"
         "fst (lead_time_lambda_handler cfg w ev) = Inl (SystemExit n)"
      by auto
    with lead_time_try_cases [of cfg w ev] obtain d pn tr c r t where
      k: "detail ev = Some d" "execution_trigger d = Some tr" "commit_id tr = Some c"
         "full_repository_name tr = Some r"
         "lead_time_try cfg w ev = lead_time_from_keys cfg w pn c r t"
      by auto
    from n k lead_time_from_keys_cases [of cfg w pn c r t]
    have "fst (query_athena_for_commits cfg w c r) = Inl (SystemExit n)"
      by auto
    with n k show ?thesis by blast
  qed
  have first: "fst (lead_time_lambda_handler cfg w ev) = Inr (Status ''success'')
    \<or> (\<exists>d tr c r qid st.
          detail ev = Some d \<and> execution_trigger d = Some tr
          \<and> commit_id tr = Some c \<and> full_repository_name tr = Some r
          \<and> start_query_execution w
               \<lparr>q_database = database cfg, q_table = table cfg, q_commit_id = c,
             q_repository_name = r, q_output_location = output_location cfg\<rparr> = Inr qid
          \<and> get_query_execution w qid = Inr st
          \<and> (st = ''FAILED'' \<or> time_time w 1 - time_time w 0 > 300)
          \<and> fst (lead_time_lambda_handler cfg w ev) = Inl (SystemExit 1))"
  proof (cases "fst (lead_time_lambda_handler cfg w ev) = Inr (Status ''success'')")
    case True
    then show ?thesis by simp
  next
    case False
    with main obtain d tr c r n where
      k: "detail ev = Some d" "execution_trigger d = Some tr" "commit_id tr = Some c"
         "full_repository_name tr = Some r"
         "fst (query_athena_for_commits cfg w c r) = Inl (SystemExit n)"
         "fst (lead_time_lambda_handler cfg w ev) = Inl (SystemExit n)"
      by blast
    from query_athena_for_commits_exit [OF k(5)] k show ?thesis by blast
  qed
  have second: "detail ev = None \<longrightarrow>
      lead_time_lambda_handler cfg w ev = (Inr (Status ''success''), [])"
    by (simp add: lead_time_lambda_handler_def lead_time_try_def subscript_def)
  have third: "(\<forall>c r n. fst (query_athena_for_commits cfg w c r) \<noteq> Inl (SystemExit n))
        \<longrightarrow> fst (lead_time_lambda_handler cfg w ev) = Inr (Status ''success'')"
    using main by blast
  from first second third show ?thesis by blast
qed

theorem lead_time_handler_success_unless_exit_witness:
  "detail \<lparr>detail_type = None, detail = None, time = None\<rparr> = None
   \<and> lead_time_lambda_handler test_config (test_world github_dora_test ''SUCCEEDED'' 0 [])
        \<lparr>detail_type = None, detail = None, time = None\<rparr>
      = (Inr (Status ''success''), [])
   \<and> (\<forall>c r n. fst (query_athena_for_commits test_config
                      (test_world (one_pipeline ''other'' [] []) ''SUCCEEDED'' 0 []) c r)
               \<noteq> Inl (SystemExit n))
   \<and> fst (lead_time_lambda_handler test_config
            (test_world (one_pipeline ''other'' [] []) ''SUCCEEDED'' 0 [])
            (trigger_event ''github-dora-test'' ''SUCCEEDED'' ''repo1'' ''main''
             ''Merge pull request #123 from acme/fix/incident-123/hotfix''))
      = Inr (Status ''success'')"
proof -
  have a: "detail \<lparr>detail_type = None, detail = None, time = None\<rparr> = None" by simp
  have b: "\<forall>c r n. fst (query_athena_for_commits test_config
                      (test_world (one_pipeline ''other'' [] []) ''SUCCEEDED'' 0 []) c r)
               \<noteq> Inl (SystemExit n)"
    by (simp add: query_athena_for_commits_def test_world_def)
  note t1 = lead_time_handler_success_unless_exit
      [of test_config "test_world github_dora_test ''SUCCEEDED'' 0 []"
          "\<lparr>detail_type = None, detail = None, time = None\<rparr>"]
  note t2 = lead_time_handler_success_unless_exit
      [of test_config "test_world (one_pipeline ''other'' [] []) ''SUCCEEDED'' 0 []"
          "(trigger_event ''github-dora-test'' ''SUCCEEDED'' ''repo1'' ''main''
             ''Merge pull request #123 from acme/fix/incident-123/hotfix'')"]
  from t1 a have r1: "lead_time_lambda_handler test_config
        (test_world github_dora_test ''SUCCEEDED'' 0 [])
        \<lparr>detail_type = None, detail = None, time = None\<rparr>
      = (Inr (Status ''success''), [])"
    by blast
  from t2 b have r2: "fst (lead_time_lambda_handler test_config
            (test_world (one_pipeline ''other'' [] []) ''SUCCEEDED'' 0 [])
            (trigger_event ''github-dora-test'' ''SUCCEEDED'' ''repo1'' ''main''
             ''Merge pull request #123 from acme/fix/incident-123/hotfix''))
      = Inr (Status ''success'')"
    by blast
  from a b r1 r2 show ?thesis by blast
qed

text \<open>
  A query seen in state FAILED ends the invocation: the client raises \<open>SystemExit\<close>
  after one reading of the state and without fetching results, and the handler lets it
  pass, with nothing published.
\<close>

lemma query_failed_exits:
  assumes "start_query_execution w
             \<lparr>q_database = database cfg, q_table = table cfg, q_commit_id = c,
             q_repository_name = r, q_output_location = output_location cfg\<rparr> = Inr qid"
    and "get_query_execution w qid = Inr ''FAILED''"
  shows "query_athena_for_commits cfg w c r
           = (Inl (SystemExit 1), [StartQueryExecution, GetQueryExecution])"
  using assms by (simp add: query_athena_for_commits_def)

lemma lead_time_lambda_handler_exit:
  assumes "detail ev = Some d" "pipeline d = Some pn" "execution_trigger d = Some tr"
    "commit_id tr = Some c" "full_repository_name tr = Some r" "time ev = Some t"
    "fst (query_athena_for_commits cfg w c r) = Inl (SystemExit n)"
  shows "lead_time_lambda_handler cfg w ev = (Inl (SystemExit n), [])"
proof -
  from assms have "lead_time_try cfg w ev = lead_time_from_keys cfg w pn c r t"
    by (simp add: lead_time_try_keys)
  moreover from assms have "lead_time_from_keys cfg w pn c r t = (Inl (SystemExit n), [])"
    by (simp add: lead_time_from_keys_def)
  ultimately show ?thesis
    by (simp add: lead_time_lambda_handler_def)
qed

text \<open>
  C7 (a query that exceeds the wall-clock timeout aborts the invocation as fatal). For
  a query that is still RUNNING when its state is read, the client reads the state
  once, sleeps ten seconds, leaves the loop through \<open>break\<close> and returns \<open>None\<close>:
  neither the state nor the clock is read again, so however long the query keeps
  running the invocation is not aborted, and the handler returns its success value
  with nothing published. (The bound compared with the clock is the literal 300.)
\<close>

theorem running_query_is_never_timed_out:
  "query_athena_for_commits test_config (test_world github_dora_test ''RUNNING'' 0 [])
       ''abc123'' ''repo1''
     = (Inr None, [StartQueryExecution, GetQueryExecution, Sleep 10])
   \<and> lead_time_lambda_handler test_config (test_world github_dora_test ''RUNNING'' 0 [])
        (trigger_event ''github-dora-test'' ''SUCCEEDED'' ''repo1'' ''main''
             ''Merge pull request #123 from acme/fix/incident-123/hotfix'')
      = (Inr (Status ''success''), [])"
  by code_simp

text \<open>
  C6: every sample the lead-time handler publishes is a LeadTimeForChange sample in
  seconds whose value is the seconds of the parsed event time minus the parsed earliest
  commit time, and that value is not zero. For the earliest commit time
  2023-01-01T00:00:00Z and the event time 2023-01-01T01:00:00Z (parsed as the UTC
  instants they denote) the value is 3600, and a difference of zero publishes nothing.
\<close>

theorem lead_time_value_and_zero_suppression:
  "(s \<in> set (snd (lead_time_lambda_handler cfg w ev))
      \<longrightarrow> (\<exists>d tr c r t earliest t1 t0 td.
             detail ev = Some d \<and> execution_trigger d = Some tr
             \<and> commit_id tr = Some c \<and> full_repository_name tr = Some r \<and> time ev = Some t
             \<and> fst (query_athena_for_commits cfg w c r) = Inr (Some earliest)
             \<and> parse w t = Inr t1 \<and> parse w earliest = Inr t0
             \<and> datetime_sub t1 t0 = Inr td \<and> td \<noteq> 0 \<and> Value s \<noteq> 0
             \<and> s = \<lparr>Namespace = ''DORA'', MetricName = ''LeadTimeForChange'', Unit = ''Seconds'',
             Value = total_seconds td\<rparr>))
   \<and> (parse w ''2023-01-01T01:00:00Z'' = Inr (utc_datetime 2023 1 1 1 0 0)
      \<and> parse w ''2023-01-01T00:00:00Z'' = Inr (utc_datetime 2023 1 1 0 0 0)
      \<longrightarrow> (\<exists>t1 t0.
             calculate_lead_time w (Some ''2023-01-01T00:00:00Z'') ''2023-01-01T01:00:00Z''
               = Some (t1, t0)
             \<and> publish_duration t1 t0
                = (Inr (), [\<lparr>Namespace = ''DORA'', MetricName = ''LeadTimeForChange'', Unit = ''Seconds'',
             Value = 3600\<rparr>])))
   \<and> (datetime_sub u1 u0 = Inr 0 \<longrightarrow> publish_duration u1 u0 = (Inr (), []))"
proof (intro conjI impI)
  assume s: "s \<in> set (snd (lead_time_lambda_handler cfg w ev))"
  from lead_time_lambda_handler_cases [of cfg w ev]
  have "snd (lead_time_lambda_handler cfg w ev) = snd (lead_time_try cfg w ev)"
    by auto
  with s have s1: "s \<in> set (snd (lead_time_try cfg w ev))" by simp
  with lead_time_try_cases [of cfg w ev] obtain d pn tr c r t where
    k: "detail ev = Some d" "execution_trigger d = Some tr" "commit_id tr = Some c"
       "full_repository_name tr = Some r" "time ev = Some t"
       "lead_time_try cfg w ev = lead_time_from_keys cfg w pn c r t"
    by auto
  from s1 k(6) lead_time_from_keys_cases [of cfg w pn c r t]
  obtain earliest t1 t0 td where
    e: "fst (query_athena_for_commits cfg w c r) = Inr (Some earliest)"
       "parse w t = Inr t1" "parse w earliest = Inr t0"
       "datetime_sub t1 t0 = Inr td" "td \<noteq> 0"
       "s = \<lparr>Namespace = ''DORA'', MetricName = ''LeadTimeForChange'', Unit = ''Seconds'',
             Value = total_seconds td\<rparr>"
    by auto
  from e(5,6) have "Value s \<noteq> 0" by (simp add: total_seconds_def)
  with k e show "\<exists>d tr c r t earliest t1 t0 td.
             detail ev = Some d \<and> execution_trigger d = Some tr
             \<and> commit_id tr = Some c \<and> full_repository_name tr = Some r \<and> time ev = Some t
             \<and> fst (query_athena_for_commits cfg w c r) = Inr (Some earliest)
             \<and> parse w t = Inr t1 \<and> parse w earliest = Inr t0
             \<and> datetime_sub t1 t0 = Inr td \<and> td \<noteq> 0 \<and> Value s \<noteq> 0
             \<and> s = \<lparr>Namespace = ''DORA'', MetricName = ''LeadTimeForChange'', Unit = ''Seconds'',
             Value = total_seconds td\<rparr>"
    by blast
next
  assume "parse w ''2023-01-01T01:00:00Z'' = Inr (utc_datetime 2023 1 1 1 0 0)
      \<and> parse w ''2023-01-01T00:00:00Z'' = Inr (utc_datetime 2023 1 1 0 0 0)"
  then show "\<exists>t1 t0.
             calculate_lead_time w (Some ''2023-01-01T00:00:00Z'') ''2023-01-01T01:00:00Z''
               = Some (t1, t0)
             \<and> publish_duration t1 t0
                = (Inr (), [\<lparr>Namespace = ''DORA'', MetricName = ''LeadTimeForChange'', Unit = ''Seconds'',
             Value = 3600\<rparr>])"
    by (simp add: calculate_lead_time_def publish_duration_def utc_datetime_def
        total_seconds_def lead_time_for_change_metric_def)
next
  assume "datetime_sub u1 u0 = Inr 0"
  then show "publish_duration u1 u0 = (Inr (), [])"
    by (simp add: publish_duration_def total_seconds_def)
qed

theorem lead_time_value_and_zero_suppression_witness:
  "\<lparr>Namespace = ''DORA'', MetricName = ''LeadTimeForChange'', Unit = ''Seconds'',
             Value = 3600\<rparr>
     \<in> set (snd (lead_time_lambda_handler test_config
                   (test_world github_dora_test ''SUCCEEDED'' 0 [])
                   (trigger_event ''github-dora-test'' ''SUCCEEDED'' ''repo1'' ''main''
             ''Merge pull request #123 from acme/fix/incident-123/hotfix'')))
   \<and> parse (test_world github_dora_test ''SUCCEEDED'' 0 []) ''2023-01-01T01:00:00Z''
       = Inr (utc_datetime 2023 1 1 1 0 0)
   \<and> parse (test_world github_dora_test ''SUCCEEDED'' 0 []) ''2023-01-01T00:00:00Z''
       = Inr (utc_datetime 2023 1 1 0 0 0)
   \<and> publish_duration (utc_datetime 2023 1 1 1 0 0) (utc_datetime 2023 1 1 0 0 0)
       = (Inr (), [\<lparr>Namespace = ''DORA'', MetricName = ''LeadTimeForChange'', Unit = ''Seconds'',
             Value = 3600\<rparr>])
   \<and> datetime_sub (utc_datetime 2023 1 1 0 0 0) (utc_datetime 2023 1 1 0 0 0) = Inr 0
   \<and> publish_duration (utc_datetime 2023 1 1 0 0 0) (utc_datetime 2023 1 1 0 0 0)
       = (Inr (), [])"
proof -
  let ?w = "test_world github_dora_test ''SUCCEEDED'' 0 []"
  let ?ev = "(trigger_event ''github-dora-test'' ''SUCCEEDED'' ''repo1'' ''main''
             ''Merge pull request #123 from acme/fix/incident-123/hotfix'')"
  let ?s = "\<lparr>Namespace = ''DORA'', MetricName = ''LeadTimeForChange'', Unit = ''Seconds'',
             Value = 3600\<rparr>"
  have run: "lead_time_lambda_handler test_config ?w ?ev = (Inr (Status ''success''), [?s])"
    by code_simp
  then have a: "?s \<in> set (snd (lead_time_lambda_handler test_config ?w ?ev))" by simp
  have p1: "parse ?w ''2023-01-01T01:00:00Z'' = Inr (utc_datetime 2023 1 1 1 0 0)"
    by (simp add: test_world_def test_parse_def)
  have p0: "parse ?w ''2023-01-01T00:00:00Z'' = Inr (utc_datetime 2023 1 1 0 0 0)"
    by (simp add: test_world_def test_parse_def)
  have z: "datetime_sub (utc_datetime 2023 1 1 0 0 0) (utc_datetime 2023 1 1 0 0 0) = Inr 0"
    by (simp add: utc_datetime_def)
  note t = lead_time_value_and_zero_suppression
      [of ?s test_config ?w ?ev "utc_datetime 2023 1 1 0 0 0" "utc_datetime 2023 1 1 0 0 0"]
  from t a have "Value ?s \<noteq> 0" by simp
  from t p1 p0 have "\<exists>t1 t0.
       calculate_lead_time ?w (Some ''2023-01-01T00:00:00Z'') ''2023-01-01T01:00:00Z''
         = Some (t1, t0)
       \<and> publish_duration t1 t0 = (Inr (), [?s])"
    by blast
  with p1 p0 have e: "publish_duration (utc_datetime 2023 1 1 1 0 0)
      (utc_datetime 2023 1 1 0 0 0) = (Inr (), [?s])"
    by (simp add: calculate_lead_time_def)
  from t z have n: "publish_duration (utc_datetime 2023 1 1 0 0 0)
      (utc_datetime 2023 1 1 0 0 0) = (Inr (), [])"
    by blast
  from a p1 p0 e z n show ?thesis by blast
qed

subsection \<open>Mean time to restore\<close>

lemma restore_time_from_times_published:
  "length (snd (restore_time_from_times cfg w pn r creation_time final_time)) \<le> 1"
  by (simp add: restore_time_from_times_def send_to_cloudwatch_def Let_def
      split: sum.splits option.splits)

lemma mean_time_to_restore_published:
  "length (snd (mean_time_to_restore_lambda_handler cfg w ev)) \<le> 1"
  by (simp add: mean_time_to_restore_lambda_handler_def subscript_def
      restore_time_from_times_published [unfolded One_nat_def] split: sum.splits option.splits)

text \<open>
  C2 (an eligible event whose incident id matches no incident publishes nothing and
  raises nothing). The event is on the default branch in state SUCCEEDED and the
  incident store returns no summary, so \<open>creation_time\<close> stays \<open>None\<close>. For a
  release-branch repository the handler then calls \<open>calculate_downtime\<close>, which
  subtracts \<open>None\<close> from the event time: the invocation ends with \<open>TypeError\<close>
  instead of completing. The same happens for a trunk-based repository whose production
  stage has succeeded. Nothing is published on either path.
\<close>

theorem no_incident_match_raises_type_error:
  "find_creation_time test_config (test_world github_dora_test ''SUCCEEDED'' 0 [])
       (trigger_event ''github-dora-test'' ''SUCCEEDED'' ''repo1'' ''main''
          ''Merge pull request #123 from acme/fix/incident-123/hotfix'') ''main'' ''SUCCEEDED''
       ''Merge pull request #123 from acme/fix/incident-123/hotfix''
     = Inr (None, Some ''2023-01-01T01:00:00Z'')
   \<and> mean_time_to_restore_lambda_handler test_config
        (test_world github_dora_test ''SUCCEEDED'' 0 [])
        (trigger_event ''github-dora-test'' ''SUCCEEDED'' ''repo1'' ''main''
          ''Merge pull request #123 from acme/fix/incident-123/hotfix'')
      = (Inl TypeError, [])
   \<and> mean_time_to_restore_lambda_handler test_config
        (test_world github_dora_test ''SUCCEEDED'' 0 [])
        (trigger_event ''github-dora-test'' ''SUCCEEDED'' ''app1'' ''main''
          ''Merge pull request #123 from acme/fix/incident-123/hotfix'')
      = (Inl TypeError, [])"
  by code_simp

subsection \<open>Pipeline not found\<close>

text \<open>
  C4, as the code has it: when \<open>get_pipeline\<close> raises "pipeline not found", the
  mean-time-to-restore handler, for an event that has the keys it reads, returns status
  code 500 with the body "Pipeline not found", and the deployment-frequency handler, for
  an event that has a state and a pipeline, returns status code 500; neither publishes
  a sample. When \<open>get_pipeline_state\<close> raises it, \<open>get_stage_details\<close> catches it and
  returns \<open>None\<close> to the handler.
\<close>

theorem pipeline_not_found_acknowledged:
  "(detail ev = Some d \<and> pipeline d = Some pn \<and> state d = Some st
      \<and> execution_trigger d = Some tr \<and> full_repository_name tr = Some r
      \<and> branch_name tr = Some b \<and> commit_message tr = Some m
      \<and> get_pipeline (codepipeline_client w) pn = Inl PipelineNotFoundException
      \<longrightarrow> mean_time_to_restore_lambda_handler cfg w ev
            = (Inr (StatusCodeBody 500 ''Pipeline not found''), []))
   \<and> (detail ev = Some d \<and> state d = Some st \<and> pipeline d = Some pn
      \<and> get_pipeline cp pn = Inl PipelineNotFoundException
      \<longrightarrow> deployment_frequency_lambda_handler cfg cp ev
            = (StatusCodeBody 500 ''Error processing the event'', []))
   \<and> (get_pipeline_state cp pn = Inl PipelineNotFoundException
      \<longrightarrow> get_stage_details cp pn = None)"
  by (simp add: mean_time_to_restore_lambda_handler_def deployment_frequency_defs
      get_stage_details_def)

theorem pipeline_not_found_acknowledged_witness:
  "get_pipeline (codepipeline_client (test_world (one_pipeline ''other'' [] []) ''SUCCEEDED'' 0 []))
       ''github-dora-test'' = Inl PipelineNotFoundException
   \<and> mean_time_to_restore_lambda_handler test_config
        (test_world (one_pipeline ''other'' [] []) ''SUCCEEDED'' 0 [])
        (trigger_event ''github-dora-test'' ''SUCCEEDED'' ''repo1'' ''main''
          ''Merge pull request #123 from acme/fix/incident-123/hotfix'')
      = (Inr (StatusCodeBody 500 ''Pipeline not found''), [])
   \<and> get_pipeline (one_pipeline ''other'' [] []) ''github-dora-test''
       = Inl PipelineNotFoundException
   \<and> deployment_frequency_lambda_handler test_config (one_pipeline ''other'' [] [])
        (trigger_event ''github-dora-test'' ''SUCCEEDED'' ''repo1'' ''main''
          ''Merge pull request #123 from acme/fix/incident-123/hotfix'')
      = (StatusCodeBody 500 ''Error processing the event'', [])
   \<and> get_pipeline_state (one_pipeline ''other'' [] []) ''github-dora-test''
       = Inl PipelineNotFoundException
   \<and> get_stage_details (one_pipeline ''other'' [] []) ''github-dora-test'' = None"
proof -
  let ?cp = "one_pipeline ''other'' [] []"
  let ?w = "test_world ?cp ''SUCCEEDED'' 0 []"
  let ?ev = "(trigger_event ''github-dora-test'' ''SUCCEEDED'' ''repo1'' ''main''
          ''Merge pull request #123 from acme/fix/incident-123/hotfix'')"
  let ?d = "the (detail ?ev)"
  let ?tr = "the (execution_trigger ?d)"
  have k: "detail ?ev = Some ?d \<and> pipeline ?d = Some ''github-dora-test''
      \<and> state ?d = Some ''SUCCEEDED'' \<and> execution_trigger ?d = Some ?tr
      \<and> full_repository_name ?tr = Some ''repo1'' \<and> branch_name ?tr = Some ''main''
      \<and> commit_message ?tr
          = Some ''Merge pull request #123 from acme/fix/incident-123/hotfix''"
    by (simp add: trigger_event_def)
  have g1: "get_pipeline (codepipeline_client ?w) ''github-dora-test''
      = Inl PipelineNotFoundException"
    by (simp add: test_world_def one_pipeline_def)
  have g2: "get_pipeline ?cp ''github-dora-test'' = Inl PipelineNotFoundException"
    by (simp add: one_pipeline_def)
  have g3: "get_pipeline_state ?cp ''github-dora-test'' = Inl PipelineNotFoundException"
    by (simp add: one_pipeline_def)
  note t = pipeline_not_found_acknowledged
      [of ?ev ?d "''github-dora-test''" "''SUCCEEDED''" ?tr "''repo1''" "''main''"
          "''Merge pull request #123 from acme/fix/incident-123/hotfix''" ?w test_config ?cp]
  from t k g1 have r1: "mean_time_to_restore_lambda_handler test_config ?w ?ev
      = (Inr (StatusCodeBody 500 ''Pipeline not found''), [])"
    by blast
  from t k g2 have r2: "deployment_frequency_lambda_handler test_config ?cp ?ev
      = (StatusCodeBody 500 ''Error processing the event'', [])"
    by blast
  from t g3 have r3: "get_stage_details ?cp ''github-dora-test'' = None"
    by blast
  from g1 g2 g3 r1 r2 r3 show ?thesis by blast
qed

text \<open>
  C4, as the specification states it, fails for the lead-time handler: its only call
  to the platform is \<open>get_pipeline_state\<close>; when that raises "pipeline not found" for
  a release-branch repository, the handler returns the success value, and it has
  published a sample.
\<close>

theorem lead_time_pipeline_not_found_reports_success:
  "get_pipeline_state
       (codepipeline_client (test_world (one_pipeline ''other'' [] []) ''SUCCEEDED'' 0 []))
       ''github-dora-test'' = Inl PipelineNotFoundException
   \<and> lead_time_lambda_handler test_config
        (test_world (one_pipeline ''other'' [] []) ''SUCCEEDED'' 0 [])
        (trigger_event ''github-dora-test'' ''SUCCEEDED'' ''repo1'' ''main''
          ''Merge pull request #123 from acme/fix/incident-123/hotfix'')
      = (Inr (Status ''success''),
         [\<lparr>Namespace = ''DORA'', MetricName = ''LeadTimeForChange'', Unit = ''Seconds'',
          Value = 3600\<rparr>])"
  by code_simp

subsection \<open>Samples per invocation\<close>

lemma lead_time_published:
  "length (snd (lead_time_lambda_handler cfg w ev)) \<le> 1"
proof -
  from lead_time_lambda_handler_cases [of cfg w ev]
  have a: "snd (lead_time_lambda_handler cfg w ev) = snd (lead_time_try cfg w ev)"
    by auto
  have "length (snd (lead_time_from_keys cfg w pn c r t)) \<le> 1" for pn c r t
    using lead_time_from_keys_cases [of cfg w pn c r t] by auto
  with lead_time_try_cases [of cfg w ev] have "length (snd (lead_time_try cfg w ev)) \<le> 1"
    by auto
  with a show ?thesis by simp
qed

text \<open>
  C9: each of the four handlers hands at most one sample to the metrics sink in an
  invocation, whatever the event, the configuration and the answers of the services.
\<close>

theorem at_most_one_sample_per_invocation:
  "length (snd (deployment_frequency_lambda_handler cfg cp ev)) \<le> 1
   \<and> length (snd (lead_time_lambda_handler cfg w ev)) \<le> 1
   \<and> length (snd (mean_time_to_restore_lambda_handler cfg w ev)) \<le> 1
   \<and> length (snd (change_failure_rate_lambda_handler ev)) \<le> 1"
proof (intro conjI)
  show "length (snd (deployment_frequency_lambda_handler cfg cp ev)) \<le> 1"
    by (rule deployment_frequency_published)
  show "length (snd (lead_time_lambda_handler cfg w ev)) \<le> 1"
    by (rule lead_time_published)
  show "length (snd (mean_time_to_restore_lambda_handler cfg w ev)) \<le> 1"
    by (rule mean_time_to_restore_published)
  show "length (snd (change_failure_rate_lambda_handler ev)) \<le> 1"
    by (simp add: change_failure_rate_lambda_handler_def failed_deployments_metric_def
        subscript_def split: option.splits)
qed

theorem at_most_one_sample_per_invocation_witness:
  "length (snd (deployment_frequency_lambda_handler test_config github_dora_test
                  (pipeline_event ''github-dora-test'' ''SUCCEEDED''))) \<le> 1
   \<and> length (snd (lead_time_lambda_handler test_config
                    (test_world github_dora_test ''SUCCEEDED'' 0 [])
                    (pipeline_event ''github-dora-test'' ''SUCCEEDED''))) \<le> 1
   \<and> length (snd (mean_time_to_restore_lambda_handler test_config
                    (test_world github_dora_test ''SUCCEEDED'' 0 [])
                    (pipeline_event ''github-dora-test'' ''SUCCEEDED''))) \<le> 1
   \<and> length (snd (change_failure_rate_lambda_handler
                    (pipeline_event ''github-dora-test'' ''SUCCEEDED''))) \<le> 1"
  using at_most_one_sample_per_invocation
          [of test_config github_dora_test "pipeline_event ''github-dora-test'' ''SUCCEEDED''"
              "test_world github_dora_test ''SUCCEEDED'' 0 []"]
  by blast

end
